theory Spec2Isabelle
  imports Main "HOL-Library.Word"
begin

unbundle bit_operations_syntax

section \<open>Bytes, buffers and opcodes\<close>

text \<open>
  \<^verbatim>\<open>char\<close>, \<^verbatim>\<open>uint8_t\<close>: 8-bit words (addition wraps).  \<^verbatim>\<open>size_t\<close> and
  \<^verbatim>\<open>uint64_t\<close>: 64-bit words.  A \<^verbatim>\<open>temporary_buffer<char>\<close> is the list of its bytes.
\<close>

type_synonym byte = "8 word"
type_synonym buffer = "byte list"

text \<open>
  Modelled from the spec: the enumeration \<^verbatim>\<open>opcodes\<close> is declared in
  \<^verbatim>\<open>seastar/websocket/server.hh\<close>, which is not among the sources.  The values are the
  ones of the wire protocol section (CONTINUATION=0, TEXT=1, BINARY=2, CLOSE=8, PING=9,
  PONG=10).  An opcode is kept as its underlying byte, since the incoming-frame parser
  may report a value that no enumerator names.
\<close>

type_synonym opcodes = byte

definition CONTINUATION :: opcodes where "CONTINUATION = 0x0"
definition TEXT :: opcodes where "TEXT = 0x1"
definition BINARY :: opcodes where "BINARY = 0x2"
definition CLOSE :: opcodes where "CLOSE = 0x8"
definition PING :: opcodes where "PING = 0x9"
definition PONG :: opcodes where "PONG = 0xA"

section \<open>Outbound frame header (\<^verbatim>\<open>server_connection::send_data\<close>, lines 262-281)\<close>

text \<open>\<^verbatim>\<open>write_be<T>(p, v)\<close>: the bytes of \<open>v\<close>, most significant first.\<close>

definition be16 :: "16 word \<Rightarrow> byte list" where
  "be16 v = [ucast (drop_bit 8 v), ucast v]"

definition be64 :: "64 word \<Rightarrow> byte list" where
  "be64 v = [ucast (drop_bit 56 v), ucast (drop_bit 48 v), ucast (drop_bit 40 v),
     ucast (drop_bit 32 v), ucast (drop_bit 24 v), ucast (drop_bit 16 v),
     ucast (drop_bit 8 v), ucast v]"

text \<open>Storing a byte sequence into an array at an offset (the \<^verbatim>\<open>memcpy\<close> of \<^verbatim>\<open>write_be\<close>).\<close>

definition store_at :: "byte list \<Rightarrow> nat \<Rightarrow> byte list \<Rightarrow> byte list" where
  "store_at arr off bs = take off arr @ bs @ drop (off + length bs) arr"

text \<open>
  The header part of \<^verbatim>\<open>send_data\<close>: \<open>sz\<close> is \<^verbatim>\<open>buff.size()\<close>.  The array
  \<^verbatim>\<open>header[10]\<close> starts as \<^verbatim>\<open>{'\x80', 0}\<close>, the opcode is added to its first byte, and
  the first \<^verbatim>\<open>header_size\<close> bytes are sent.
\<close>

definition send_data_header :: "opcodes \<Rightarrow> 64 word \<Rightarrow> byte list" where
  "send_data_header opcode sz =
     (let header = [0x80, 0, 0, 0, 0, 0, 0, 0, 0, 0];
          header_size = (2::nat);
          header = header[0 := header ! 0 + opcode]
      in if 126 \<le> sz \<and> sz \<le> 0xFFFF then
           take (header_size + 2) (store_at (header[1 := 0x7E]) 2 (be16 (ucast sz)))
         else if 0xFFFF < sz then
           take (header_size + 8) (store_at (header[1 := 0x7F]) 2 (be64 sz))
         else
           take header_size (header[1 := ucast sz]))"

subsection \<open>A reference decoder for frame headers\<close>

text \<open>
  The decoder follows the wire format of the specification (FIN in bit 7 of byte 0, the
  opcode in its low four bits, MASK in bit 7 of byte 1, then the three-tier length); it is
  not part of the source and serves only to state the round trip.
\<close>

record frame_header =
  fin :: bool
  fh_opcode :: byte
  masked :: bool
  payload_len :: "64 word"
  header_len :: nat

definition from_be :: "byte list \<Rightarrow> 64 word" where
  "from_be bs = foldl (\<lambda>acc b. push_bit 8 acc OR ucast b) 0 bs"

definition decode_header :: "byte list \<Rightarrow> frame_header option" where
  "decode_header bs =
     (case bs of
        b0 # b1 # rest \<Rightarrow>
          (let len7 = b1 AND 0x7F;
               n = (if len7 = 126 then 2 else if len7 = 127 then 8 else 0)
           in if length rest < n then None
              else Some \<lparr>fin = bit b0 7, fh_opcode = b0 AND 0x0F, masked = bit b1 7,
                     payload_len = (if n = 0 then ucast len7 else from_be (take n rest)),
                     header_len = 2 + n\<rparr>)
      | _ \<Rightarrow> None)"

section \<open>Futures, exceptions and the connection state\<close>

text \<open>
  A resolved \<^verbatim>\<open>future<T>\<close> is either an exception or a value.  \<open>websocket_exception\<close> is
  the exception the source throws; \<open>foreign_exception\<close> stands for an exception raised by a
  collaborator (the transport, a handler).  A future that never resolves (a loop that
  waits for ever, or a process that a failed \<^verbatim>\<open>assert\<close> has aborted) is \<open>None\<close> of
  \<open>'a future option\<close>.
\<close>

datatype exn = websocket_exception string | foreign_exception string

type_synonym 'a future = "exn + 'a"

text \<open>
  A handler (\<^verbatim>\<open>handler_t\<close>) is an external function from the two streams to a
  \<^verbatim>\<open>future<>\<close>; it is represented by the future its invocation resolves to.
\<close>

type_synonym handler_t = "unit future"

text \<open>
  The members of \<^verbatim>\<open>server_connection\<close> that the functions of \<^verbatim>\<open>server.cc\<close> touch.
  \<open>write_buf\<close> lists the messages handed to \<^verbatim>\<open>_write_buf.write\<close>, in call order;
  \<open>write_error\<close> and \<open>flush_error\<close> are the environment: when one is \<open>Some e\<close>, a write
  to the transport, or a flush, fails with \<open>e\<close>.  The closing and shutdown calls are
  recorded as flags, \<open>handler_calls\<close> counts the evaluations of the call
  \<^verbatim>\<open>_handler(_input, _output)\<close>, and \<open>logged\<close> keeps the exceptions that \<^verbatim>\<open>process\<close> hands to
  the logger.
\<close>

record server_connection =
  c_done :: bool
  c_handler :: handler_t
  c_subprotocol :: string
  input_buffer :: "buffer list"
  output_buffer :: "buffer list"
  input_closed :: bool
  output_closed :: bool
  read_buf_closed :: bool
  write_buf_closed :: bool
  fd_shutdown_input :: bool
  fd_shutdown_output :: bool
  write_buf :: "buffer list"
  write_error :: "exn option"
  flush_error :: "exn option"
  handler_calls :: nat
  logged :: "exn list"

text \<open>
  \<^verbatim>\<open>_write_buf.write(msg)\<close>: the call is recorded, and its result is the environment's.
\<close>

definition write_buf_write :: "buffer \<Rightarrow> server_connection \<Rightarrow> unit future \<times> server_connection" where
  "write_buf_write msg c =
     ((case write_error c of Some e \<Rightarrow> Inl e | None \<Rightarrow> Inr ()),
      c\<lparr>write_buf := write_buf c @ [msg]\<rparr>)"

text \<open>\<^verbatim>\<open>_write_buf.flush()\<close>: its result is the environment's.\<close>

definition write_buf_flush :: "server_connection \<Rightarrow> unit future \<times> server_connection" where
  "write_buf_flush c = ((case flush_error c of Some e \<Rightarrow> Inl e | None \<Rightarrow> Inr ()), c)"

text \<open>\<^verbatim>\<open>size_t\<close> of a buffer's length.\<close>

definition buff_size :: "buffer \<Rightarrow> 64 word" where
  "buff_size buff = of_nat (length buff)"

text \<open>
  \<^verbatim>\<open>server_connection::send_data\<close>: header and payload go out as one scattered message,
  and when that write has succeeded the write buffer is flushed (lines 283-285).
\<close>

definition send_data :: "opcodes \<Rightarrow> buffer \<Rightarrow> server_connection \<Rightarrow> unit future \<times> server_connection" where
  "send_data opcode buff c =
     (case write_buf_write (send_data_header opcode (buff_size buff) @ buff) c of
        (Inl e, c') \<Rightarrow> (Inl e, c')
      | (Inr u, c') \<Rightarrow> write_buf_flush c')"

text \<open>
  \<^verbatim>\<open>server_connection::close\<close> (lines 247-260): the optional CLOSE frame, and in a
  \<^verbatim>\<open>finally\<close> (so also when sending failed) the completion flag, the closing of both
  queues and the shutdown of the write direction.  The result is the one of the send.
\<close>

definition close :: "bool \<Rightarrow> server_connection \<Rightarrow> unit future \<times> server_connection" where
  "close send_close c =
     (let (r, c1) = (if send_close then send_data CLOSE [] c else (Inr (), c))
      in (r, c1\<lparr>c_done := True, input_closed := True, output_closed := True,
                fd_shutdown_output := True\<rparr>))"

section \<open>Frame ingestion (\<^verbatim>\<open>read_one\<close>, lines 194-226)\<close>

text \<open>
  What the incoming-frame parser reports after \<^verbatim>\<open>_read_buf.consume(_websocket_parser)\<close>.
  The parser is an external collaborator; only its four queries are used.
\<close>

record websocket_parser =
  is_valid :: bool
  ws_eof :: bool
  ws_opcode :: opcodes
  ws_result :: buffer

text \<open>\<^verbatim>\<open>handle_ping\<close> and \<^verbatim>\<open>handle_pong\<close> (lines 183-191) return a ready future.\<close>

definition handle_ping :: "server_connection \<Rightarrow> unit future \<times> server_connection" where
  "handle_ping c = (Inr (), c)"

definition handle_pong :: "server_connection \<Rightarrow> unit future \<times> server_connection" where
  "handle_pong c = (Inr (), c)"

text \<open>\<^verbatim>\<open>_input_buffer.push_eventually(buf)\<close>: the payload joins the inbound queue.\<close>

definition push_eventually :: "buffer \<Rightarrow> server_connection \<Rightarrow> unit future \<times> server_connection" where
  "push_eventually buf c = (Inr (), c\<lparr>input_buffer := input_buffer c @ [buf]\<rparr>)"

text \<open>
  The \<^verbatim>\<open>switch\<close> over the opcode of a valid frame: \<open>Some\<close> is the \<^verbatim>\<open>return\<close> of a case,
  \<open>None\<close> is the \<^verbatim>\<open>default\<close> label, which returns nothing and leaves the \<^verbatim>\<open>switch\<close>.
\<close>

definition opcode_switch ::
  "websocket_parser \<Rightarrow> server_connection \<Rightarrow> (unit future \<times> server_connection) option" where
  "opcode_switch p c =
     (if ws_opcode p = CONTINUATION \<or> ws_opcode p = TEXT \<or> ws_opcode p = BINARY
        then Some (push_eventually (ws_result p) c)
      else if ws_opcode p = CLOSE then Some (close True c)
      else if ws_opcode p = PING then Some (handle_ping c)
      else if ws_opcode p = PONG then Some (handle_pong c)
      else None)"

text \<open>
  \<^verbatim>\<open>read_one\<close>: a branch that returns ends the function; control that leaves the
  \<^verbatim>\<open>if\<close>/\<^verbatim>\<open>else if\<close> without returning reaches the last two statements
  (the log line and \<^verbatim>\<open>return close(true)\<close>).
\<close>

definition read_one :: "websocket_parser \<Rightarrow> server_connection \<Rightarrow> unit future \<times> server_connection" where
  "read_one p c =
     (case (if is_valid p then opcode_switch p c
            else if ws_eof p then Some (close False c)
            else None) of
        Some r \<Rightarrow> r
      | None \<Rightarrow> close True c)"

text \<open>
  \<^verbatim>\<open>do_until([this] {return _done;}, [this] {return read_one();})\<close>: the list holds what
  the parser reports at the successive calls.  When the reports are used up and the flag is
  still unset the loop waits for input: the result \<open>None\<close> is a future that is not resolved.
\<close>

fun ingestion_loop ::
  "websocket_parser list \<Rightarrow> server_connection \<Rightarrow> unit future option \<times> server_connection" where
  "ingestion_loop [] c = (if c_done c then (Some (Inr ()), c) else (None, c))"
| "ingestion_loop (p # ps) c =
     (if c_done c then (Some (Inr ()), c)
      else case read_one p c of
        (Inl e, c') \<Rightarrow> (Some (Inl e), c')
      | (Inr u, c') \<Rightarrow> ingestion_loop ps c')"

section \<open>Frame emission (\<^verbatim>\<open>response_loop\<close>, lines 288-298)\<close>

text \<open>
  The loop over the payloads waiting in the outbound queue; \<^verbatim>\<open>pop_eventually\<close> on an
  empty queue does not resolve.
\<close>

fun emission_loop ::
  "buffer list \<Rightarrow> server_connection \<Rightarrow> unit future option \<times> server_connection" where
  "emission_loop [] c = (if c_done c then (Some (Inr ()), c) else (None, c))"
| "emission_loop (buf # q) c =
     (if c_done c then (Some (Inr ()), c)
      else case send_data BINARY buf (c\<lparr>output_buffer := q\<rparr>) of
        (Inl e, c') \<Rightarrow> (Some (Inl e), c')
      | (Inr u, c') \<Rightarrow> emission_loop q c')"

text \<open>The \<^verbatim>\<open>finally\<close> closes the write buffer once the loop has ended.\<close>

definition response_loop :: "server_connection \<Rightarrow> unit future option \<times> server_connection" where
  "response_loop c =
     (case emission_loop (output_buffer c) c of
        (None, c') \<Rightarrow> (None, c')
      | (Some r, c') \<Rightarrow> (Some r, c'\<lparr>write_buf_closed := True\<rparr>))"

section \<open>The accept key (\<^verbatim>\<open>sha1_base64\<close>, lines 115-134)\<close>

text \<open>
  The three GnuTLS entry points that \<^verbatim>\<open>sha1_base64\<close> calls are taken as parameters:
  each returns its status code and its output.  \<open>gnutls_hash_get_len\<close> is the digest length
  that the \<^verbatim>\<open>assert\<close> of line 117 compares with \<^verbatim>\<open>sizeof(hash)\<close>, which is 20; when the
  two differ the process is aborted and \<^verbatim>\<open>sha1_base64\<close> yields nothing (\<open>None\<close>).
\<close>

record gnutls =
  gnutls_hash_get_len :: nat
  gnutls_hash_fast :: "buffer \<Rightarrow> int \<times> buffer"
  gnutls_base64_encode2 :: "buffer \<Rightarrow> int \<times> string"
  gnutls_strerror :: "int \<Rightarrow> string"

definition GNUTLS_E_SUCCESS :: int where
  "GNUTLS_E_SUCCESS = 0"

definition bytes_of :: "string \<Rightarrow> buffer" where
  "bytes_of s = map of_char s"

definition sha1_base64 :: "gnutls \<Rightarrow> string \<Rightarrow> string future option" where
  "sha1_base64 g source =
     (if gnutls_hash_get_len g \<noteq> 20 then None
      else case gnutls_hash_fast g (bytes_of source) of
        (ret, hash) \<Rightarrow>
          if ret \<noteq> GNUTLS_E_SUCCESS
            then Some (Inl (websocket_exception (''gnutls_hash_fast: '' @ gnutls_strerror g ret)))
          else case gnutls_base64_encode2 g hash of
            (ret2, base64_encoded) \<Rightarrow>
              if ret2 \<noteq> GNUTLS_E_SUCCESS
                then Some (Inl (websocket_exception
                       (''gnutls_base64_encode2: '' @ gnutls_strerror g ret2)))
              else Some (Inr base64_encoded))"

subsection \<open>SHA-1 and base64\<close>

text \<open>
  Modelled from the spec: the digest and the encoding are computed by the GnuTLS library
  (\<^verbatim>\<open>gnutls_hash_fast(GNUTLS_DIG_SHA1, ...)\<close>, \<^verbatim>\<open>gnutls_base64_encode2\<close>), which is not
  among the sources.  The specification names the two algorithms (SHA-1 over the bytes of
  the concatenation, base64 of the 20-byte digest); they are written here as the standards
  define them (FIPS 180-4 and RFC 4648), on 32-bit words.
\<close>

type_synonym u32 = "32 word"
type_synonym sha1_state = "u32 \<times> u32 \<times> u32 \<times> u32 \<times> u32"

definition rotl32 :: "nat \<Rightarrow> u32 \<Rightarrow> u32" where
  "rotl32 n x = push_bit n x OR drop_bit (32 - n) x"

definition sha1_f :: "nat \<Rightarrow> u32 \<Rightarrow> u32 \<Rightarrow> u32 \<Rightarrow> u32" where
  "sha1_f t b c d =
     (if t < 20 then (b AND c) OR (NOT b AND d)
      else if t < 40 then b XOR c XOR d
      else if t < 60 then (b AND c) OR (b AND d) OR (c AND d)
      else b XOR c XOR d)"

definition sha1_k :: "nat \<Rightarrow> u32" where
  "sha1_k t =
     (if t < 20 then 0x5A827999 else if t < 40 then 0x6ED9EBA1
      else if t < 60 then 0x8F1BBCDC else 0xCA62C1D6)"

fun sha1_round :: "sha1_state \<Rightarrow> nat \<times> u32 \<Rightarrow> sha1_state" where
  "sha1_round (a, b, c, d, e) (t, w) =
     (rotl32 5 a + sha1_f t b c d + e + sha1_k t + w, a, rotl32 30 b, c, d)"

fun sha1_rounds :: "nat \<Rightarrow> sha1_state \<Rightarrow> u32 list \<Rightarrow> sha1_state" where
  "sha1_rounds t s [] = s"
| "sha1_rounds t s (w # ws) = sha1_rounds (t + 1) (sha1_round s (t, w)) ws"

text \<open>
  The message schedule, most recent word first while it grows:
  \<open>W\<^sub>t = rotl 1 (W\<^bsub>t-3\<^esub> XOR W\<^bsub>t-8\<^esub> XOR W\<^bsub>t-14\<^esub> XOR W\<^bsub>t-16\<^esub>)\<close>.
\<close>

fun sha1_expand_step :: "u32 list \<Rightarrow> nat \<Rightarrow> u32 list" where
  "sha1_expand_step ws t = rotl32 1 (ws ! 2 XOR ws ! 7 XOR ws ! 13 XOR ws ! 15) # ws"

definition sha1_schedule :: "u32 list \<Rightarrow> u32 list" where
  "sha1_schedule block = rev (foldl sha1_expand_step (rev block) [16..<80])"

fun be32_words :: "byte list \<Rightarrow> u32 list" where
  "be32_words (b0 # b1 # b2 # b3 # bs) =
     (push_bit 24 (ucast b0) OR push_bit 16 (ucast b1) OR push_bit 8 (ucast b2) OR ucast b3)
       # be32_words bs"
| "be32_words _ = []"

fun sha1_add :: "sha1_state \<Rightarrow> sha1_state \<Rightarrow> sha1_state" where
  "sha1_add (a, b, c, d, e) (a', b', c', d', e') = (a + a', b + b', c + c', d + d', e + e')"

definition sha1_block :: "sha1_state \<Rightarrow> byte list \<Rightarrow> sha1_state" where
  "sha1_block h block = sha1_add h (sha1_rounds 0 h (sha1_schedule (be32_words block)))"

definition sha1_pad :: "byte list \<Rightarrow> byte list" where
  "sha1_pad m = m @ [0x80] @ replicate ((119 - length m mod 64) mod 64) 0
                  @ be64 (of_nat (8 * length m))"

fun chunks64 :: "nat \<Rightarrow> byte list \<Rightarrow> byte list list" where
  "chunks64 0 bs = []"
| "chunks64 (Suc n) bs = take 64 bs # chunks64 n (drop 64 bs)"

definition sha1_init :: sha1_state where
  "sha1_init = (0x67452301, 0xEFCDAB89, 0x98BADCFE, 0x10325476, 0xC3D2E1F0)"

fun be32_bytes :: "u32 \<Rightarrow> byte list" where
  "be32_bytes w = [ucast (drop_bit 24 w), ucast (drop_bit 16 w), ucast (drop_bit 8 w), ucast w]"

fun sha1_digest :: "sha1_state \<Rightarrow> byte list" where
  "sha1_digest (a, b, c, d, e) =
     be32_bytes a @ be32_bytes b @ be32_bytes c @ be32_bytes d @ be32_bytes e"

definition sha1 :: "byte list \<Rightarrow> byte list" where
  "sha1 m = sha1_digest (foldl sha1_block sha1_init
              (chunks64 (length (sha1_pad m) div 64) (sha1_pad m)))"

definition base64_alphabet :: string where
  "base64_alphabet = ''ABCDEFGHIJKLMNOPQRSTUVWXYZabcdefghijklmnopqrstuvwxyz0123456789+/''"

definition base64_char :: "nat \<Rightarrow> char" where
  "base64_char n = base64_alphabet ! n"

fun base64_encode :: "byte list \<Rightarrow> string" where
  "base64_encode (x # y # z # rest) =
     [base64_char (unat x div 4),
      base64_char ((unat x mod 4) * 16 + unat y div 16),
      base64_char ((unat y mod 16) * 4 + unat z div 64),
      base64_char (unat z mod 64)] @ base64_encode rest"
| "base64_encode [x, y] =
     [base64_char (unat x div 4),
      base64_char ((unat x mod 4) * 16 + unat y div 16),
      base64_char ((unat y mod 16) * 4),
      CHR ''='']"
| "base64_encode [x] =
     [base64_char (unat x div 4), base64_char ((unat x mod 4) * 16), CHR ''='', CHR ''='']"
| "base64_encode [] = []"

text \<open>
  Modelled from the spec: the library as the handshake uses it, computing SHA-1 and base64
  and reporting success.  The text of \<^verbatim>\<open>gnutls_strerror\<close> is not modelled.
\<close>

definition gnutls_library :: gnutls where
  "gnutls_library =
     \<lparr>gnutls_hash_get_len = 20,
      gnutls_hash_fast = (\<lambda>text. (GNUTLS_E_SUCCESS, sha1 text)),
      gnutls_base64_encode2 = (\<lambda>data. (GNUTLS_E_SUCCESS, base64_encode data)),
      gnutls_strerror = (\<lambda>ret. [])\<rparr>"

section \<open>The handshake (\<^verbatim>\<open>read_http_upgrade_request\<close>, lines 136-181)\<close>

definition magic_key_suffix :: string where
  "magic_key_suffix = ''258EAFA5-E914-47DA-95CA-C5AB0DC85B11''"

definition CRLF :: string where
  "CRLF = [CHR 0x0D, CHR 0x0A]"

definition http_upgrade_reply_template :: string where
  "http_upgrade_reply_template =
     ''HTTP/1.1 101 Switching Protocols'' @ CRLF @
     ''Upgrade: websocket'' @ CRLF @
     ''Connection: Upgrade'' @ CRLF @
     ''Sec-WebSocket-Version: 13'' @ CRLF @
     ''Sec-WebSocket-Accept: ''"

text \<open>
  What the HTTP request parser reports after \<^verbatim>\<open>_read_buf.consume(_http_parser)\<close>: its two
  flags and the headers of the parsed request.  The awaited \<^verbatim>\<open>consume\<close> itself resolves to
  a failure (a read error of the transport) or leaves the parser in such a state: the
  handshake takes an \<open>http_request_parser future\<close>.
\<close>

record http_request_parser =
  http_eof :: bool
  http_failed :: bool
  http_headers :: "string \<rightharpoonup> string"

text \<open>
  Modelled from the spec: \<^verbatim>\<open>http::request::get_header\<close> is declared in
  \<^verbatim>\<open>seastar/http/request.hh\<close>, which is not among the sources.  It returns the value of
  the header of that name, here the name as the source writes it; for a header that is
  absent the string is empty (so that an absent \<^verbatim>\<open>Upgrade\<close> header differs from
  \<^verbatim>\<open>websocket\<close>, as the specification says).
\<close>

definition get_header :: "http_request_parser \<Rightarrow> string \<Rightarrow> string" where
  "get_header p name = (case http_headers p name of None \<Rightarrow> [] | Some v \<Rightarrow> v)"

text \<open>\<^verbatim>\<open>server::is_handler_registered\<close> (lines 300-302) and \<^verbatim>\<open>register_handler\<close> (304-306).\<close>

definition is_handler_registered :: "(string \<rightharpoonup> handler_t) \<Rightarrow> string \<Rightarrow> bool" where
  "is_handler_registered hs name = (hs name \<noteq> None)"

definition register_handler ::
  "string \<Rightarrow> handler_t \<Rightarrow> (string \<rightharpoonup> handler_t) \<Rightarrow> (string \<rightharpoonup> handler_t)" where
  "register_handler name h hs = hs(name \<mapsto> h)"

text \<open>A sequence of awaited writes: the first failure ends it.\<close>

fun write_all :: "buffer list \<Rightarrow> server_connection \<Rightarrow> unit future \<times> server_connection" where
  "write_all [] c = (Inr (), c)"
| "write_all (m # ms) c =
     (case write_buf_write m c of
        (Inl e, c') \<Rightarrow> (Inl e, c')
      | (Inr u, c') \<Rightarrow> write_all ms c')"

definition upgrade_reply :: "string \<Rightarrow> string \<Rightarrow> buffer list" where
  "upgrade_reply sha1_output subprotocol =
     [bytes_of http_upgrade_reply_template, bytes_of sha1_output]
     @ (if subprotocol \<noteq> [] then
          [bytes_of (CRLF @ ''Sec-WebSocket-Protocol: ''), bytes_of subprotocol]
        else [])
     @ [bytes_of (CRLF @ CRLF)]"

text \<open>The writes of the reply (lines 173-179) and the flush that ends it (line 180).\<close>

definition write_reply :: "buffer list \<Rightarrow> server_connection \<Rightarrow> unit future \<times> server_connection" where
  "write_reply ms c =
     (case write_all ms c of
        (Inl e, c') \<Rightarrow> (Inl e, c')
      | (Inr u, c') \<Rightarrow> write_buf_flush c')"

text \<open>
  The handshake proper, once \<^verbatim>\<open>consume\<close> has returned (lines 140-181).  The result \<open>None\<close>
  is the abort of the process in \<^verbatim>\<open>sha1_base64\<close>.
\<close>

definition upgrade_request ::
  "gnutls \<Rightarrow> (string \<rightharpoonup> handler_t) \<Rightarrow> http_request_parser \<Rightarrow> server_connection
     \<Rightarrow> unit future option \<times> server_connection" where
  "upgrade_request g hs p c =
     (if http_eof p then (Some (Inr ()), c\<lparr>c_done := True\<rparr>)
      else if http_failed p
        then (Some (Inl (websocket_exception ''Incorrect upgrade request'')), c)
      else
        let upgrade_header = get_header p ''Upgrade'' in
        if upgrade_header \<noteq> ''websocket''
          then (Some (Inl (websocket_exception ''Upgrade header missing'')), c)
        else
          let subprotocol = get_header p ''Sec-WebSocket-Protocol'' in
          if \<not> is_handler_registered hs subprotocol
            then (Some (Inl (websocket_exception ''Subprotocol not supported.'')), c)
          else
            let c1 = c\<lparr>c_handler := the (hs subprotocol), c_subprotocol := subprotocol\<rparr>;
                sec_key = get_header p ''Sec-Websocket-Key'';
                sha1_input = sec_key @ magic_key_suffix
            in case sha1_base64 g sha1_input of
                 None \<Rightarrow> (None, c1)
               | Some (Inl e) \<Rightarrow> (Some (Inl e), c1)
               | Some (Inr sha1_output) \<Rightarrow>
                   (case write_reply (upgrade_reply sha1_output (c_subprotocol c1)) c1 of
                      (r, c2) \<Rightarrow> (Some r, c2)))"

text \<open>
  \<^verbatim>\<open>read_http_upgrade_request\<close>: \<open>consumed\<close> is what the awaited
  \<^verbatim>\<open>_read_buf.consume(_http_parser)\<close> of line 138 resolves to; its failure is the failure of
  the handshake.
\<close>

definition read_http_upgrade_request ::
  "gnutls \<Rightarrow> (string \<rightharpoonup> handler_t) \<Rightarrow> http_request_parser future \<Rightarrow> server_connection
     \<Rightarrow> unit future option \<times> server_connection" where
  "read_http_upgrade_request g hs consumed c =
     (case consumed of
        Inl e \<Rightarrow> (Some (Inl e), c)
      | Inr p \<Rightarrow> upgrade_request g hs p c)"

section \<open>Connection processing (\<^verbatim>\<open>read_loop\<close>, lines 228-241; \<^verbatim>\<open>process\<close>, 109-113)\<close>

text \<open>
  \<^verbatim>\<open>when_all_succeed(f1, f2).discard_result()\<close>: resolved once both futures are; it fails
  with the exception of the first one that failed.
\<close>

definition when_all_succeed :: "unit future option \<Rightarrow> unit future option \<Rightarrow> unit future option" where
  "when_all_succeed f1 f2 =
     (case f1 of
        None \<Rightarrow> None
      | Some r1 \<Rightarrow>
          (case f2 of
             None \<Rightarrow> None
           | Some r2 \<Rightarrow> (case r1 of Inl e \<Rightarrow> Some (Inl e) | Inr u \<Rightarrow> Some r2)))"

text \<open>
  The invocation \<^verbatim>\<open>_handler(_input, _output)\<close> with its \<^verbatim>\<open>handle_exception\<close>: a failed
  handler closes the read buffer and the exception is raised again.
\<close>

definition invoke_handler :: "server_connection \<Rightarrow> unit future \<times> server_connection" where
  "invoke_handler c =
     (case c_handler c of
        Inl e \<Rightarrow> (Inl e, c\<lparr>handler_calls := handler_calls c + 1, read_buf_closed := True\<rparr>)
      | Inr u \<Rightarrow> (Inr u, c\<lparr>handler_calls := handler_calls c + 1\<rparr>))"

text \<open>
  \<^verbatim>\<open>read_loop\<close>: the handshake, then handler and ingestion loop together, and in a
  \<^verbatim>\<open>finally\<close> the closing of the read buffer.  The continuation of \<^verbatim>\<open>then\<close> runs whenever
  the handshake has returned without error, also after its end-of-stream return.  The
  handler and the loop run interleaved in the source; here the handler's future comes
  first, as in the argument list, and the loop follows.  \<open>frames\<close> are the reports of the
  incoming-frame parser.  After an abort nothing runs.
\<close>

definition read_loop ::
  "gnutls \<Rightarrow> (string \<rightharpoonup> handler_t) \<Rightarrow> http_request_parser future \<Rightarrow> websocket_parser list
     \<Rightarrow> server_connection \<Rightarrow> unit future option \<times> server_connection" where
  "read_loop g hs consumed frames c =
     (case read_http_upgrade_request g hs consumed c of
        (None, c1) \<Rightarrow> (None, c1)
      | (Some (Inl e), c1) \<Rightarrow> (Some (Inl e), c1\<lparr>read_buf_closed := True\<rparr>)
      | (Some (Inr u), c1) \<Rightarrow>
          (case invoke_handler c1 of
             (rh, c2) \<Rightarrow>
               (case ingestion_loop frames c2 of
                  (rl, c3) \<Rightarrow>
                    (case when_all_succeed (Some rh) rl of
                       None \<Rightarrow> (None, c3)
                     | Some r \<Rightarrow> (Some r, c3\<lparr>read_buf_closed := True\<rparr>)))))"

text \<open>
  Modelled from the spec: the queues and the streams over them are declared in
  \<^verbatim>\<open>server.hh\<close>, which is not among the sources.  Closing a queue "unblocks waiters": an
  emission loop that waits in \<^verbatim>\<open>pop_eventually\<close> is released once \<^verbatim>\<open>close\<close> has closed the
  outbound queue, and goes on with its loop, which tests the completion flag.  Without
  that it keeps waiting.
\<close>

definition release_response_loop ::
  "server_connection \<Rightarrow> unit future option \<times> server_connection" where
  "release_response_loop c = (if output_closed c then response_loop c else (None, c))"

text \<open>
  The two futures of \<^verbatim>\<open>process\<close>.  \<^verbatim>\<open>read_loop()\<close> and \<^verbatim>\<open>response_loop()\<close> are started
  together, while the first read of the transport is awaited: the emission loop deals with
  what is queued and then waits; \<^verbatim>\<open>read_loop\<close> runs; an emission loop that waits is
  released if the outbound queue has been closed.  What the handler itself does on the
  queues is not part of the model.
\<close>

definition process_futures ::
  "gnutls \<Rightarrow> (string \<rightharpoonup> handler_t) \<Rightarrow> http_request_parser future \<Rightarrow> websocket_parser list
     \<Rightarrow> server_connection
     \<Rightarrow> (unit future option \<times> unit future option) \<times> server_connection" where
  "process_futures g hs consumed frames c =
     (case response_loop c of
        (Some r2, ca) \<Rightarrow>
          (case read_loop g hs consumed frames ca of
             (r1, c1) \<Rightarrow> ((r1, Some r2), c1))
      | (None, ca) \<Rightarrow>
          (case read_loop g hs consumed frames ca of
             (r1, c1) \<Rightarrow>
               (case release_response_loop c1 of
                  (r2, c2) \<Rightarrow> ((r1, r2), c2))))"

text \<open>
  \<^verbatim>\<open>process\<close>: \<^verbatim>\<open>when_all_succeed(read_loop(), response_loop())\<close> and a
  \<^verbatim>\<open>handle_exception\<close> whose handler logs the exception and returns normally.
\<close>

definition process ::
  "gnutls \<Rightarrow> (string \<rightharpoonup> handler_t) \<Rightarrow> http_request_parser future \<Rightarrow> websocket_parser list
     \<Rightarrow> server_connection \<Rightarrow> unit future option \<times> server_connection" where
  "process g hs consumed frames c =
     (case process_futures g hs consumed frames c of
        ((r1, r2), c2) \<Rightarrow>
          (case when_all_succeed r1 r2 of
             None \<Rightarrow> (None, c2)
           | Some (Inl e) \<Rightarrow> (Some (Inr ()), c2\<lparr>logged := logged c2 @ [e]\<rparr>)
           | Some (Inr u) \<Rightarrow> (Some (Inr u), c2)))"

text \<open>\<^verbatim>\<open>server_connection::shutdown_input\<close> (lines 243-245).\<close>

definition shutdown_input :: "server_connection \<Rightarrow> server_connection" where
  "shutdown_input c = c\<lparr>fd_shutdown_input := True\<rparr>"

text \<open>
  Modelled from the spec: the constructor of \<^verbatim>\<open>server_connection\<close> is in
  \<^verbatim>\<open>server.hh\<close>, which is not among the sources.  The completion flag is initially false
  and the queues are empty; the handler member holds no registered handler until the
  handshake sets it, and \<open>h0\<close> is what calling it before that resolves to.  \<open>werr\<close> and
  \<open>ferr\<close> are the environment of the connection.
\<close>

definition new_connection :: "handler_t \<Rightarrow> exn option \<Rightarrow> exn option \<Rightarrow> server_connection" where
  "new_connection h0 werr ferr =
     \<lparr>c_done = False, c_handler = h0, c_subprotocol = [], input_buffer = [],
      output_buffer = [], input_closed = False, output_closed = False,
      read_buf_closed = False, write_buf_closed = False, fd_shutdown_input = False,
      fd_shutdown_output = False, write_buf = [], write_error = werr, flush_error = ferr,
      handler_calls = 0, logged = []\<rparr>"

subsection \<open>The operations of a connection, as one type\<close>

datatype conn_op =
    Handshake gnutls "string \<rightharpoonup> handler_t" "http_request_parser future"
  | Read_One websocket_parser
  | Ingestion "websocket_parser list"
  | Emission
  | Close bool
  | Send_Data opcodes buffer
  | Shutdown_Input
  | Read_Loop gnutls "string \<rightharpoonup> handler_t" "http_request_parser future"
      "websocket_parser list"
  | Process gnutls "string \<rightharpoonup> handler_t" "http_request_parser future"
      "websocket_parser list"

fun after :: "conn_op \<Rightarrow> server_connection \<Rightarrow> server_connection" where
  "after (Handshake g hs p) c = snd (read_http_upgrade_request g hs p c)"
| "after (Read_One p) c = snd (read_one p c)"
| "after (Ingestion ps) c = snd (ingestion_loop ps c)"
| "after Emission c = snd (response_loop c)"
| "after (Close send_close) c = snd (close send_close c)"
| "after (Send_Data opcode buff) c = snd (send_data opcode buff c)"
| "after Shutdown_Input c = shutdown_input c"
| "after (Read_Loop g hs p frames) c = snd (read_loop g hs p frames c)"
| "after (Process g hs p frames) c = snd (process g hs p frames c)"

section \<open>The server (\<^verbatim>\<open>listen\<close>, lines 45-53; \<^verbatim>\<open>stop\<close>, 85-99)\<close>

text \<open>
  \<^verbatim>\<open>listen_options\<close> is declared outside the sources; only its member
  \<^verbatim>\<open>reuse_address\<close> is used, and the record is open for the others.
\<close>

record listen_options =
  reuse_address :: bool

type_synonym socket_address = string

record 'o server_socket =
  ls_addr :: socket_address
  ls_opts :: 'o
  ls_accepting :: bool
  ls_aborted :: bool

text \<open>
  Modelled from the spec: the gate (\<^verbatim>\<open>seastar/core/gate.hh\<close>) is not among the sources.
  It is "a counter of in-flight tasks plus a closed flag"; entering fails when it is closed
  (\<^verbatim>\<open>try_with_gate\<close> then yields \<^verbatim>\<open>gate_closed_exception\<close>, which both callers swallow).
\<close>

record gate =
  g_closed :: bool
  g_count :: nat

record 'o server =
  s_listeners :: "'o server_socket list"
  s_handlers :: "string \<rightharpoonup> handler_t"
  s_connections :: "server_connection list"
  s_task_gate :: gate
  s_close_calls :: nat

text \<open>
  \<^verbatim>\<open>server::accept\<close> (lines 55-61) for the listener added last: the accept loop starts
  under the gate, unless the gate is closed.
\<close>

definition accept :: "'o server \<Rightarrow> 'o server" where
  "accept s =
     (if g_closed (s_task_gate s) \<or> s_listeners s = [] then s
      else s\<lparr>s_listeners := butlast (s_listeners s) @ [(last (s_listeners s))\<lparr>ls_accepting := True\<rparr>],
             s_task_gate := (s_task_gate s)\<lparr>g_count := g_count (s_task_gate s) + 1\<rparr>\<rparr>)"

text \<open>\<^verbatim>\<open>seastar::listen(addr, lo)\<close>: a bound listening socket.\<close>

definition seastar_listen :: "socket_address \<Rightarrow> 'o \<Rightarrow> 'o server_socket" where
  "seastar_listen addr lo = \<lparr>ls_addr = addr, ls_opts = lo, ls_accepting = False, ls_aborted = False\<rparr>"

definition listen :: "socket_address \<Rightarrow> 'o \<Rightarrow> 'o server \<Rightarrow> 'o server" where
  "listen addr lo s = accept (s\<lparr>s_listeners := s_listeners s @ [seastar_listen addr lo]\<rparr>)"

text \<open>
  The overload without options: \<open>lo0\<close> is the default-constructed \<^verbatim>\<open>listen_options\<close>.
\<close>

definition listen_addr ::
  "'a listen_options_scheme \<Rightarrow> socket_address \<Rightarrow> 'a listen_options_scheme server
     \<Rightarrow> 'a listen_options_scheme server" where
  "listen_addr lo0 addr s = (let lo = lo0\<lparr>reuse_address := True\<rparr> in listen addr lo s)"

text \<open>
  Modelled from the spec: \<^verbatim>\<open>gate::close\<close>.  "Close flips the flag and waits for the
  counter to reach zero", "closing completes only when all already-registered tasks
  finish", and "gate closure itself is idempotent".  A connection task that finishes
  destroys its connection (the \<^verbatim>\<open>finally\<close> of \<^verbatim>\<open>accept_one\<close>, line 67, owns it), and the
  destructor (lines 101-103) erases it from \<^verbatim>\<open>_connections\<close>; so when the wait is over
  the registry holds no connection.
\<close>

definition gate_close :: "'o server \<Rightarrow> unit future \<times> 'o server" where
  "gate_close s =
     (if g_closed (s_task_gate s) then (Inr (), s)
      else (Inr (), s\<lparr>s_task_gate := \<lparr>g_closed = True, g_count = 0\<rparr>, s_connections := []\<rparr>))"

text \<open>
  \<^verbatim>\<open>parallel_for_each(_connections, ...)\<close> with \<^verbatim>\<open>conn.close(true)\<close> and its
  \<^verbatim>\<open>handle_exception\<close>, which drops the exception.
\<close>

definition close_all :: "'o server \<Rightarrow> 'o server" where
  "close_all s =
     s\<lparr>s_connections := map (\<lambda>c. snd (close True c)) (s_connections s),
       s_close_calls := s_close_calls s + length (s_connections s)\<rparr>"

definition stop :: "'o server \<Rightarrow> unit future \<times> 'o server" where
  "stop s =
     (let s1 = s\<lparr>s_listeners := map (\<lambda>l. l\<lparr>ls_aborted := True\<rparr>) (s_listeners s)\<rparr>;
          s2 = s1\<lparr>s_connections := map shutdown_input (s_connections s1)\<rparr>
      in case gate_close s2 of (r, s3) \<Rightarrow> (r, close_all s3))"

section \<open>Example inputs\<close>

text \<open>
  An upgrade request carrying the key of RFC 6455 and no subprotocol, as the HTTP parser
  reports it, and a registry with one handler for the empty subprotocol.
\<close>

definition rfc6455_request :: http_request_parser where
  "rfc6455_request =
     \<lparr>http_eof = False, http_failed = False,
      http_headers = [''Upgrade'' \<mapsto> ''websocket'',
                      ''Sec-Websocket-Key'' \<mapsto> ''dGhlIHNhbXBsZSBub25jZQ=='']\<rparr>"

definition one_handler :: "handler_t \<Rightarrow> (string \<rightharpoonup> handler_t)" where
  "one_handler h = register_handler [] h Map.empty"




section \<open>Shared facts\<close>

lemmas opcodes_defs = CONTINUATION_def TEXT_def BINARY_def CLOSE_def PING_def PONG_def

subsection \<open>Closing a connection, and the loops after the flag is set\<close>

lemma close_frame: "send_data_header CLOSE (buff_size []) = [0x88, 0x00]"
  by (simp add: send_data_header_def buff_size_def CLOSE_def Let_def)

lemma send_data_result:
  "send_data opcode buff c =
     ((case write_error c of Some e \<Rightarrow> Inl e
       | None \<Rightarrow> (case flush_error c of Some e \<Rightarrow> Inl e | None \<Rightarrow> Inr ())),
      c\<lparr>write_buf := write_buf c @ [send_data_header opcode (buff_size buff) @ buff]\<rparr>)"
  by (simp add: send_data_def write_buf_write_def write_buf_flush_def split: option.splits)

lemma send_data_CLOSE:
  "send_data CLOSE [] c =
     ((case write_error c of Some e \<Rightarrow> Inl e
       | None \<Rightarrow> (case flush_error c of Some e \<Rightarrow> Inl e | None \<Rightarrow> Inr ())),
      c\<lparr>write_buf := write_buf c @ [[0x88, 0x00]]\<rparr>)"
  by (simp add: send_data_result close_frame)

lemma close_True:
  "close True c =
     ((case write_error c of Some e \<Rightarrow> Inl e
       | None \<Rightarrow> (case flush_error c of Some e \<Rightarrow> Inl e | None \<Rightarrow> Inr ())),
      c\<lparr>write_buf := write_buf c @ [[0x88, 0x00]], c_done := True, input_closed := True,
        output_closed := True, fd_shutdown_output := True\<rparr>)"
  by (simp add: close_def send_data_CLOSE)

lemma close_False:
  "close False c =
     (Inr (), c\<lparr>c_done := True, input_closed := True, output_closed := True,
               fd_shutdown_output := True\<rparr>)"
  by (simp add: close_def)

lemma ingestion_loop_done: "c_done c \<Longrightarrow> ingestion_loop ps c = (Some (Inr ()), c)"
  by (cases ps) simp_all

lemma emission_loop_done: "c_done c \<Longrightarrow> emission_loop q c = (Some (Inr ()), c)"
  by (cases q) simp_all

lemma c_done_close: "c_done (snd (close b c))"
  by (cases b) (simp_all add: close_True close_False)

lemma ingestion_loop_close:
  assumes "\<not> c_done c" "read_one p c = close b c"
  shows "ingestion_loop (p # rest) c = (Some (fst (close b c)), snd (close b c))"
proof (cases "close b c")
  case (Pair r c')
  with c_done_close[of b c] have d: "c_done c'" by simp
  show ?thesis
  proof (cases r)
    case (Inl e)
    with Pair assms show ?thesis by simp
  next
    case (Inr u)
    with Pair assms ingestion_loop_done[OF d, of rest] show ?thesis by simp
  qed
qed

subsection \<open>The accept key of the RFC 6455 example\<close>

text \<open>
  Evaluation of SHA-1 by rewriting: each 32-bit result is brought back to its numeral below
  \<open>2 ^ 32\<close> as soon as it is computed.
\<close>

lemma replicate_num: "replicate (numeral k) x = x # replicate (pred_numeral k) x"
  by (simp add: numeral_eq_Suc)

lemma sha1_round_norm:
  "sha1_round (a, b, c, d, e) (t, w) =
     (word_of_nat (unat (rotl32 5 a + sha1_f t b c d + e + sha1_k t + w)), a,
      word_of_nat (unat (rotl32 30 b)), c, d)"
  by simp

lemma sha1_expand_norm:
  "sha1_expand_step ws t =
     word_of_nat (unat (rotl32 1 (ws ! 2 XOR ws ! 7 XOR ws ! 13 XOR ws ! 15))) # ws"
  by simp

lemma sha1_add_norm:
  "sha1_add (a, b, c, d, e) (a', b', c', d', e') =
    (word_of_nat (unat (a + a')), word_of_nat (unat (b + b')), word_of_nat (unat (c + c')),
     word_of_nat (unat (d + d')), word_of_nat (unat (e + e')))"
  by simp

lemma chunks64_num: "chunks64 (numeral k) bs = take 64 bs # chunks64 (pred_numeral k) (drop 64 bs)"
  by (simp add: numeral_eq_Suc)

lemma chunks64_1: "chunks64 1 bs = [take 64 bs]"
  by simp

lemma key_bytes:
  "bytes_of (''dGhlIHNhbXBsZSBub25jZQ=='' @ magic_key_suffix) =
    [100, 71, 104, 108, 73, 72, 78, 104, 98, 88, 66, 115, 90, 83, 66, 117, 98,
  50, 53, 106, 90, 81, 61, 61, 50, 53, 56, 69, 65, 70, 65, 53, 45, 69, 57,
  49, 52, 45, 52, 55, 68, 65, 45, 57, 53, 67, 65, 45, 67, 53, 65, 66, 48,
  68, 67, 56, 53, 66, 49, 49]"
  by (simp add: bytes_of_def magic_key_suffix_def)

lemma key_sha1:
  "sha1 (bytes_of (''dGhlIHNhbXBsZSBub25jZQ=='' @ magic_key_suffix)) =
     [179, 122, 79, 44, 192, 98, 79, 22, 144, 246, 70, 6, 207, 56, 89, 69, 178, 190, 196, 234]"
  unfolding key_bytes
  apply (simp add: sha1_def sha1_pad_def replicate_num be64_def chunks64_num chunks64_1)
  apply (simp add: sha1_block_def sha1_schedule_def rotl32_def sha1_f_def sha1_k_def sha1_init_def
     sha1_round_norm sha1_expand_norm sha1_add_norm
     del: sha1_round.simps sha1_expand_step.simps sha1_add.simps)
  done

lemma key_b64:
  "base64_encode [179, 122, 79, 44, 192, 98, 79, 22, 144, 246, 70, 6, 207, 56, 89, 69, 178, 190, 196, 234]
    = ''s3pPLMBiTxaQ9kYGzzhZRbK+xOo=''"
  by (simp add: base64_char_def base64_alphabet_def)


lemma key_accept:
  "sha1_base64 gnutls_library (''dGhlIHNhbXBsZSBub25jZQ=='' @ magic_key_suffix) =
     Some (Inr ''s3pPLMBiTxaQ9kYGzzhZRbK+xOo='')"
  by (simp only: sha1_base64_def gnutls_library_def gnutls.simps key_sha1 key_b64
        GNUTLS_E_SUCCESS_def split_conv if_False simp_thms)

lemma handshake_reply:
  assumes "sha1_base64 g (key @ magic_key_suffix) = Some (Inr acc)"
  shows "read_http_upgrade_request g (register_handler [] h Map.empty)
        (Inr \<lparr>http_eof = False, http_failed = False,
           http_headers = [''Upgrade'' \<mapsto> ''websocket'', ''Sec-Websocket-Key'' \<mapsto> key]\<rparr>)
        (c\<lparr>write_error := None, flush_error := None\<rparr>) =
       (Some (Inr ()),
        c\<lparr>write_error := None, flush_error := None, c_handler := h, c_subprotocol := [],
          write_buf := write_buf c @
            [bytes_of http_upgrade_reply_template, bytes_of acc, bytes_of (CRLF @ CRLF)]\<rparr>)"
  using assms
  by (simp add: read_http_upgrade_request_def upgrade_request_def get_header_def
        is_handler_registered_def register_handler_def Let_def upgrade_reply_def
        write_reply_def write_buf_write_def write_buf_flush_def)

section \<open>The frame header is the three-tier encoding\<close>

lemma be_step: "push_bit 8 (drop_bit (k + 8) (v::64 word)) OR ucast (ucast (drop_bit k v) :: byte) = drop_bit k v"
  by (rule bit_word_eqI)
     (auto simp add: bit_or_iff bit_push_bit_iff bit_drop_bit_eq bit_ucast_iff)

lemma be_top: "ucast (ucast (drop_bit 56 (v :: 64 word)) :: byte) = drop_bit 56 v"
  by (rule bit_word_eqI)
     (auto simp add: bit_drop_bit_eq bit_ucast_iff dest: bit_imp_le_length)

lemma from_be_be64: "from_be (be64 v) = v"
proof -
  have "from_be (be64 v) =
    push_bit 8 (push_bit 8 (push_bit 8 (push_bit 8 (push_bit 8 (push_bit 8 (push_bit 8
      (ucast (ucast (drop_bit 56 v) :: byte))
      OR ucast (ucast (drop_bit 48 v) :: byte))
      OR ucast (ucast (drop_bit 40 v) :: byte))
      OR ucast (ucast (drop_bit 32 v) :: byte))
      OR ucast (ucast (drop_bit 24 v) :: byte))
      OR ucast (ucast (drop_bit 16 v) :: byte))
      OR ucast (ucast (drop_bit 8 v) :: byte))
      OR ucast (ucast v :: byte)"
    by (simp only: from_be_def be64_def foldl_Cons foldl_Nil push_bit_of_0 or.left_neutral)
  also have "\<dots> = v"
    using be_step[of 48 v] be_step[of 40 v] be_step[of 32 v] be_step[of 24 v]
      be_step[of 16 v] be_step[of 8 v] be_step[of 0 v]
    by (simp only: be_top numeral_plus_numeral add_0 drop_bit_0 id_apply) simp
  finally show ?thesis .
qed

lemma word_bit_bound: "(w::64 word) < 2 ^ k \<Longrightarrow> bit w n \<Longrightarrow> n < k"
proof -
  assume a: "w < 2 ^ k" "bit w n"
  from a(1) have "w AND mask k = w" by (rule less_mask_eq)
  with a(2) have "bit (w AND mask k) n" by simp
  then show "n < k" by (simp add: bit_and_iff bit_mask_iff)
qed

lemma bit_le_65535: "(w::64 word) \<le> 0xFFFF \<Longrightarrow> bit w n \<Longrightarrow> n < 16"
  by (rule word_bit_bound[of w 16 n]) (simp_all add: word_less_nat_alt word_le_nat_alt)

lemma bit_le_125: "(w::64 word) \<le> 125 \<Longrightarrow> bit w n \<Longrightarrow> n < 7"
  by (rule word_bit_bound[of w 7 n]) (simp_all add: word_less_nat_alt word_le_nat_alt)

lemma from_be_be16: "w \<le> 0xFFFF \<Longrightarrow> from_be (be16 (ucast (w::64 word))) = w"
  apply (simp add: from_be_def be16_def)
  apply (rule bit_word_eqI)
  apply (auto simp add: bit_or_iff bit_push_bit_iff bit_drop_bit_eq bit_ucast_iff dest: bit_le_65535)
  done

lemma mask7: "bit (0x7F :: byte) n \<longleftrightarrow> n < 7"
proof -
  have h: "(0x7F :: byte) = mask 7" by (simp add: mask_eq_exp_minus_1)
  show ?thesis unfolding h bit_mask_iff by auto
qed

lemma small7: "(w::64 word) \<le> 125 \<Longrightarrow> ucast ((ucast w :: byte) AND 0x7F) = w"
  apply (rule bit_word_eqI)
  apply (simp only: bit_and_iff bit_ucast_iff mask7)
  apply (auto dest: bit_le_125)
  done

lemma small_and: "(w::64 word) \<le> 125 \<Longrightarrow> (ucast w :: byte) AND 0x7F = ucast w"
  apply (rule bit_word_eqI)
  apply (simp only: bit_and_iff bit_ucast_iff mask7)
  apply (auto dest: bit_le_125)
  done

lemma small_not_ext: 
  assumes "(w::64 word) \<le> 125" 
  shows "(ucast w :: byte) AND 0x7F \<noteq> 126" "(ucast w :: byte) AND 0x7F \<noteq> 127"
proof -
  { fix k :: byte assume "(ucast w :: byte) AND 0x7F = k" and k: "k = 126 \<or> k = 127"
    with small7[OF assms] have "w = ucast k" by simp
    with k assms have False by auto }
  then show "(ucast w :: byte) AND 0x7F \<noteq> 126" "(ucast w :: byte) AND 0x7F \<noteq> 127" by blast+
qed

lemma small_msb: "(w::64 word) \<le> 125 \<Longrightarrow> \<not> bit (ucast w :: byte) 7"
  by (auto simp add: bit_ucast_iff dest: bit_le_125)

lemma fin_opcode:
  assumes "opcode \<in> {CONTINUATION, TEXT, BINARY, CLOSE, PING, PONG}"
  shows "0x80 + opcode = 0x80 OR opcode" "bit (0x80 + opcode) 7" "(0x80 + opcode) AND 0x0F = opcode"
  using assms by (auto simp add: opcodes_defs)

lemma header_small: 
  assumes "L \<le> 125" shows "send_data_header opcode L = [0x80 + opcode, ucast L]"
proof -
  from assms have "\<not> 126 \<le> L" "\<not> 0xFFFF < L"
    by (simp_all add: word_le_nat_alt word_less_nat_alt)
  then show ?thesis by (simp add: send_data_header_def Let_def)
qed

lemma header_medium: "126 \<le> L \<Longrightarrow> L \<le> 0xFFFF \<Longrightarrow>
   send_data_header opcode L = (0x80 + opcode) # 0x7E # be16 (ucast L)"
  by (simp add: send_data_header_def Let_def store_at_def be16_def)

lemma header_large: 
  assumes "0xFFFF < L" shows "send_data_header opcode L = (0x80 + opcode) # 0x7F # be64 L"
proof -
  from assms have "\<not> L \<le> 0xFFFF"
    by (simp_all add: word_le_nat_alt word_less_nat_alt)
  then show ?thesis using assms by (simp add: send_data_header_def Let_def store_at_def be64_def)
qed

lemma header_cases: "L \<le> 125 \<or> (126 \<le> L \<and> L \<le> 0xFFFF) \<or> 0xFFFF < (L::64 word)"
  by (auto simp add: word_le_nat_alt word_less_nat_alt)


lemma decode_small:
  assumes op: "opcode \<in> {CONTINUATION, TEXT, BINARY, CLOSE, PING, PONG}" and L: "L \<le> 125"
  shows "decode_header (send_data_header opcode L) =
    Some \<lparr>fin = True, fh_opcode = opcode, masked = False, payload_len = L, header_len = 2\<rparr>"
  using small_not_ext[OF L] small7[OF L] small_msb[OF L] fin_opcode[OF op]
  by (simp add: header_small[OF L] decode_header_def Let_def)

lemma decode_medium:
  assumes op: "opcode \<in> {CONTINUATION, TEXT, BINARY, CLOSE, PING, PONG}"
    and L: "126 \<le> L" "L \<le> 0xFFFF"
  shows "decode_header (send_data_header opcode L) =
    Some \<lparr>fin = True, fh_opcode = opcode, masked = False, payload_len = L, header_len = 4\<rparr>"
proof -
  have "from_be (take 2 (be16 (ucast L))) = L"
    using from_be_be16[OF L(2)] by (simp add: be16_def)
  then show ?thesis
    using fin_opcode[OF op] by (simp add: header_medium[OF L] decode_header_def Let_def be16_def)
qed

lemma decode_large:
  assumes op: "opcode \<in> {CONTINUATION, TEXT, BINARY, CLOSE, PING, PONG}"
    and L: "0xFFFF < L"
  shows "decode_header (send_data_header opcode L) =
    Some \<lparr>fin = True, fh_opcode = opcode, masked = False, payload_len = L, header_len = 10\<rparr>"
proof -
  have "from_be (take 8 (be64 L)) = L"
    using from_be_be64[of L] by (simp add: be64_def)
  then show ?thesis
    using fin_opcode[OF op] by (simp add: header_large[OF L] decode_header_def Let_def be64_def)
qed

text \<open>
  Claim C1.  For each of the six opcodes and every payload length \<open>L\<close> (a \<^verbatim>\<open>size_t\<close>), the
  header that \<^verbatim>\<open>send_data\<close> builds has byte 0 equal to \<open>0x80 OR opcode\<close> (FIN set), bit 7
  of byte 1 clear (no mask), and the three-tier length: two bytes with \<open>L\<close> in the low seven
  bits of byte 1 when \<open>L \<le> 125\<close>; four bytes, byte 1 = 126 and \<open>L\<close> as 16-bit big-endian, when
  \<open>126 \<le> L \<le> 65535\<close>; ten bytes, byte 1 = 127 and \<open>L\<close> as 64-bit big-endian, when
  \<open>L > 65535\<close>.  The reference decoder recovers the opcode and \<open>L\<close>, and \<^verbatim>\<open>send_data\<close> hands
  this header followed by the payload to the write buffer as one message and returns the
  result of that write and of the flush after it.
\<close>

theorem send_data_header_three_tier:
  assumes op: "opcode \<in> {CONTINUATION, TEXT, BINARY, CLOSE, PING, PONG}"
  shows "send_data_header opcode L ! 0 = 0x80 OR opcode
       \<and> \<not> bit (send_data_header opcode L ! 1) 7
       \<and> (L \<le> 125 \<longrightarrow> length (send_data_header opcode L) = 2
              \<and> ucast (send_data_header opcode L ! 1 AND 0x7F) = L)
       \<and> (126 \<le> L \<and> L \<le> 0xFFFF \<longrightarrow> length (send_data_header opcode L) = 4
              \<and> send_data_header opcode L ! 1 = 126
              \<and> drop 2 (send_data_header opcode L) = be16 (ucast L)
              \<and> from_be (drop 2 (send_data_header opcode L)) = L)
       \<and> (0xFFFF < L \<longrightarrow> length (send_data_header opcode L) = 10
              \<and> send_data_header opcode L ! 1 = 127
              \<and> drop 2 (send_data_header opcode L) = be64 L
              \<and> from_be (drop 2 (send_data_header opcode L)) = L)
       \<and> decode_header (send_data_header opcode L) =
            Some \<lparr>fin = True, fh_opcode = opcode, masked = False, payload_len = L,
                  header_len = length (send_data_header opcode L)\<rparr>
       \<and> send_data opcode buff c =
            ((case write_error c of Some e \<Rightarrow> Inl e
              | None \<Rightarrow> (case flush_error c of Some e \<Rightarrow> Inl e | None \<Rightarrow> Inr ())),
             c\<lparr>write_buf := write_buf c @ [send_data_header opcode (buff_size buff) @ buff]\<rparr>)"
proof -
  have sd: "send_data opcode buff c =
            ((case write_error c of Some e \<Rightarrow> Inl e
              | None \<Rightarrow> (case flush_error c of Some e \<Rightarrow> Inl e | None \<Rightarrow> Inr ())),
             c\<lparr>write_buf := write_buf c @ [send_data_header opcode (buff_size buff) @ buff]\<rparr>)"
    by (rule send_data_result)
  consider (small) "L \<le> 125" | (medium) "126 \<le> L" "L \<le> 0xFFFF" | (large) "0xFFFF < L"
    using header_cases[of L] by blast
  then show ?thesis
  proof cases
    case small
    then have n: "\<not> 126 \<le> L" "\<not> 0xFFFF < L"
      by (simp_all add: word_le_nat_alt word_less_nat_alt)
    show ?thesis
      using decode_small[OF op small] small7[OF small] small_msb[OF small] fin_opcode[OF op] n sd
      by (simp add: header_small[OF small])
  next
    case medium
    then have n: "\<not> L \<le> 125" "\<not> 0xFFFF < L"
      by (simp_all add: word_le_nat_alt word_less_nat_alt)
    show ?thesis
      using decode_medium[OF op medium] from_be_be16[OF medium(2)] fin_opcode[OF op] n medium sd
      by (simp add: header_medium[OF medium] be16_def)
  next
    case large
    then have n: "\<not> L \<le> 125" "\<not> L \<le> 0xFFFF"
      by (simp_all add: word_le_nat_alt word_less_nat_alt)
    show ?thesis
      using decode_large[OF op large] from_be_be64[of L] fin_opcode[OF op] n large sd
      by (simp add: header_large[OF large] be64_def)
  qed
qed

text \<open>The theorem at opcode BINARY and a payload of 65536 bytes.\<close>

theorem send_data_header_three_tier_witness:
  "BINARY \<in> {CONTINUATION, TEXT, BINARY, CLOSE, PING, PONG}
   \<and> send_data_header BINARY 65536 = [0x82, 127, 0, 0, 0, 0, 0, 1, 0, 0]
   \<and> decode_header [0x82, 127, 0, 0, 0, 0, 0, 1, 0, 0] =
        Some \<lparr>fin = True, fh_opcode = BINARY, masked = False, payload_len = 65536, header_len = 10\<rparr>"
proof -
  have m: "BINARY \<in> {CONTINUATION, TEXT, BINARY, CLOSE, PING, PONG}" by simp
  have h: "send_data_header BINARY 65536 = [0x82, 127, 0, 0, 0, 0, 0, 1, 0, 0]"
    by (simp add: send_data_header_def Let_def store_at_def be64_def BINARY_def)
  from send_data_header_three_tier[OF m, of 65536]
  have "decode_header (send_data_header BINARY 65536) =
      Some \<lparr>fin = True, fh_opcode = BINARY, masked = False, payload_len = 65536,
            header_len = length (send_data_header BINARY 65536)\<rparr>"
    by blast
  then have "decode_header [0x82, 127, 0, 0, 0, 0, 0, 1, 0, 0] =
      Some \<lparr>fin = True, fh_opcode = BINARY, masked = False, payload_len = 65536, header_len = 10\<rparr>"
    unfolding h by simp
  with m h show ?thesis by blast
qed

section \<open>A valid frame with an unknown opcode\<close>

lemma read_one_default:
  assumes "is_valid p" "ws_opcode p \<notin> {CONTINUATION, TEXT, BINARY, CLOSE, PING, PONG}"
  shows "read_one p c = close True c"
  using assms by (simp add: read_one_def opcode_switch_def)

text \<open>
  Claim C2 says that a valid frame whose opcode is none of the six named ones is ignored
  and the loop continues.  In \<^verbatim>\<open>read_one\<close> the \<^verbatim>\<open>default\<close> label returns nothing, so control
  leaves the \<^verbatim>\<open>switch\<close> and reaches \<^verbatim>\<open>return close(true)\<close>: for such a frame \<^verbatim>\<open>read_one\<close> is
  \<^verbatim>\<open>close(true)\<close>, which writes a CLOSE frame and sets the completion flag, and the
  ingestion loop ends there.
\<close>

theorem read_one_unknown_opcode_closes:
  assumes "is_valid p" "ws_opcode p \<notin> {CONTINUATION, TEXT, BINARY, CLOSE, PING, PONG}"
  shows "read_one p c = close True c
       \<and> c_done (snd (read_one p c))
       \<and> write_buf (snd (read_one p c)) = write_buf c @ [[0x88, 0x00]]
       \<and> (\<not> c_done c \<longrightarrow>
            ingestion_loop (p # rest) c = (Some (fst (close True c)), snd (close True c)))"
  using ingestion_loop_close[of c p True rest] read_one_default[OF assms, of c]
  by (simp add: close_True)

text \<open>A valid frame with opcode 3 on a fresh connection.\<close>

theorem read_one_unknown_opcode_closes_witness:
  "is_valid \<lparr>is_valid = True, ws_eof = False, ws_opcode = 0x3, ws_result = []\<rparr>
   \<and> (0x3 :: opcodes) \<notin> {CONTINUATION, TEXT, BINARY, CLOSE, PING, PONG}
   \<and> c_done (snd (read_one \<lparr>is_valid = True, ws_eof = False, ws_opcode = 0x3, ws_result = []\<rparr>
        (new_connection (Inr ()) None None)))
   \<and> write_buf (snd (read_one \<lparr>is_valid = True, ws_eof = False, ws_opcode = 0x3, ws_result = []\<rparr>
        (new_connection (Inr ()) None None))) = [[0x88, 0x00]]"
proof -
  let ?p = "\<lparr>is_valid = True, ws_eof = False, ws_opcode = 0x3, ws_result = []\<rparr>"
  let ?c = "new_connection (Inr ()) None None"
  have a: "is_valid ?p" by simp
  have b: "ws_opcode ?p \<notin> {CONTINUATION, TEXT, BINARY, CLOSE, PING, PONG}"
    by (simp add: opcodes_defs)
  have w: "write_buf ?c = []" by (simp add: new_connection_def)
  from read_one_unknown_opcode_closes[OF a b, of ?c]
  have "c_done (snd (read_one ?p ?c))" "write_buf (snd (read_one ?p ?c)) = write_buf ?c @ [[0x88, 0x00]]"
    by blast+
  with a b w show ?thesis by simp
qed

section \<open>The accept key is the one of RFC 6455\<close>

text \<open>
  Claim C3.  For the Sec-WebSocket-Key \<^verbatim>\<open>dGhlIHNhbXBsZSBub25jZQ==\<close> the accept key of the
  handshake (the key followed by the magic suffix, SHA-1 of those bytes, base64 of the
  20-byte digest) is \<^verbatim>\<open>s3pPLMBiTxaQ9kYGzzhZRbK+xOo=\<close>, and it is what the handshake writes
  after the reply template.
\<close>

theorem sec_websocket_accept_rfc6455:
  "sha1_base64 gnutls_library (''dGhlIHNhbXBsZSBub25jZQ=='' @ magic_key_suffix) =
     Some (Inr ''s3pPLMBiTxaQ9kYGzzhZRbK+xOo='')
   \<and> base64_encode (sha1 (bytes_of (''dGhlIHNhbXBsZSBub25jZQ=='' @ magic_key_suffix))) =
       ''s3pPLMBiTxaQ9kYGzzhZRbK+xOo=''
   \<and> length (sha1 (bytes_of (''dGhlIHNhbXBsZSBub25jZQ=='' @ magic_key_suffix))) = 20
   \<and> read_http_upgrade_request gnutls_library (register_handler [] h Map.empty)
        (Inr \<lparr>http_eof = False, http_failed = False,
           http_headers = [''Upgrade'' \<mapsto> ''websocket'',
                           ''Sec-Websocket-Key'' \<mapsto> ''dGhlIHNhbXBsZSBub25jZQ=='']\<rparr>)
        (c\<lparr>write_error := None, flush_error := None\<rparr>) =
       (Some (Inr ()),
        c\<lparr>write_error := None, flush_error := None, c_handler := h, c_subprotocol := [],
          write_buf := write_buf c @
            [bytes_of http_upgrade_reply_template,
             bytes_of ''s3pPLMBiTxaQ9kYGzzhZRbK+xOo='',
             bytes_of (CRLF @ CRLF)]\<rparr>)"
proof -
  have "base64_encode (sha1 (bytes_of (''dGhlIHNhbXBsZSBub25jZQ=='' @ magic_key_suffix))) =
       ''s3pPLMBiTxaQ9kYGzzhZRbK+xOo=''"
    by (simp only: key_sha1 key_b64)
  moreover have "length (sha1 (bytes_of (''dGhlIHNhbXBsZSBub25jZQ=='' @ magic_key_suffix))) = 20"
    by (simp only: key_sha1) simp
  ultimately show ?thesis
    using key_accept handshake_reply[OF key_accept, of h c] by blast
qed

section \<open>When the handshake fails\<close>

















section \<open>The close handshake\<close>





section \<open>End of stream and decode failure\<close>

text \<open>
  Claim C6.  When the parser reports end-of-stream (not valid, eof), \<^verbatim>\<open>read_one\<close> is
  \<^verbatim>\<open>close(false)\<close>: nothing is written.  When it reports a decode failure (not valid, not
  eof), \<^verbatim>\<open>read_one\<close> is \<^verbatim>\<open>close(true)\<close>: the CLOSE frame is handed to the write buffer, and
  the result is the one of that write and of the flush after it.
\<close>

theorem eof_closes_silently_failure_sends_close:
  "(\<not> is_valid p \<and> ws_eof p \<longrightarrow>
      read_one p c = close False c
      \<and> fst (read_one p c) = Inr ()
      \<and> write_buf (snd (read_one p c)) = write_buf c
      \<and> c_done (snd (read_one p c)))
   \<and> (\<not> is_valid p \<and> \<not> ws_eof p \<longrightarrow>
      read_one p c = close True c
      \<and> snd (read_one p c) = (snd (send_data CLOSE [] c))\<lparr>c_done := True, input_closed := True,
               output_closed := True, fd_shutdown_output := True\<rparr>
      \<and> write_buf (snd (read_one p c)) = write_buf c @ [[0x88, 0x00]]
      \<and> fst (read_one p c) = fst (send_data CLOSE [] c)
      \<and> fst (read_one p c) =
          (case write_error c of Some e \<Rightarrow> Inl e
           | None \<Rightarrow> (case flush_error c of Some e \<Rightarrow> Inl e | None \<Rightarrow> Inr ()))
      \<and> c_done (snd (read_one p c)))"
  by (simp add: read_one_def close_True close_False send_data_CLOSE)

text \<open>Both reports on a fresh connection.\<close>

theorem eof_closes_silently_failure_sends_close_witness:
  "write_buf (snd (read_one \<lparr>is_valid = False, ws_eof = True, ws_opcode = 0, ws_result = []\<rparr>
       (new_connection (Inr ()) None None))) = []
   \<and> write_buf (snd (read_one \<lparr>is_valid = False, ws_eof = False, ws_opcode = 0, ws_result = []\<rparr>
       (new_connection (Inr ()) None None))) = [[0x88, 0x00]]"
proof -
  let ?p1 = "\<lparr>is_valid = False, ws_eof = True, ws_opcode = 0, ws_result = []\<rparr>"
  let ?p2 = "\<lparr>is_valid = False, ws_eof = False, ws_opcode = 0, ws_result = []\<rparr>"
  let ?c = "new_connection (Inr ()) None None"
  have n: "write_buf ?c = []" by (simp add: new_connection_def)
  have h1: "\<not> is_valid ?p1 \<and> ws_eof ?p1" and h2: "\<not> is_valid ?p2 \<and> \<not> ws_eof ?p2" by simp_all
  from eof_closes_silently_failure_sends_close[of ?p1 ?c] h1
  have "write_buf (snd (read_one ?p1 ?c)) = write_buf ?c" by blast
  moreover from eof_closes_silently_failure_sends_close[of ?p2 ?c] h2
  have "write_buf (snd (read_one ?p2 ?c)) = write_buf ?c @ [[0x88, 0x00]]" by blast
  ultimately show ?thesis by (simp add: n)
qed

section \<open>A failing handler\<close>

subsection \<open>The log is written by process only\<close>

lemma logged_send_data: "logged (snd (send_data opcode buff c)) = logged c"
  by (simp add: send_data_result)

lemma logged_close: "logged (snd (close b c)) = logged c"
  by (cases b) (simp_all add: close_True close_False)

lemma read_one_cases:
  "(\<exists>b. read_one p c = close b c)
   \<or> (fst (read_one p c) = Inr () \<and> c_done (snd (read_one p c)) = c_done c
      \<and> logged (snd (read_one p c)) = logged c)"
  by (auto simp add: read_one_def opcode_switch_def push_eventually_def handle_ping_def
        handle_pong_def split: option.splits)

lemma logged_read_one: "logged (snd (read_one p c)) = logged c"
  using read_one_cases[of p c] logged_close[of _ c] by auto



lemma logged_ingestion_loop: "logged (snd (ingestion_loop ps c)) = logged c"
proof (induction ps arbitrary: c)
  case Nil
  show ?case by simp
next
  case (Cons p ps)
  obtain r c' where r: "read_one p c = (r, c')" by (cases "read_one p c")
  with logged_read_one[of p c] have l: "logged c' = logged c" by simp
  show ?case using r l Cons.IH[of c'] by (cases r) simp_all
qed


lemma logged_emission_loop: "logged (snd (emission_loop q c)) = logged c"
proof (induction q arbitrary: c)
  case Nil
  show ?case by simp
next
  case (Cons buf q)
  obtain r c' where r: "send_data BINARY buf (c\<lparr>output_buffer := q\<rparr>) = (r, c')"
    by (cases "send_data BINARY buf (c\<lparr>output_buffer := q\<rparr>)")
  with logged_send_data[of BINARY buf "c\<lparr>output_buffer := q\<rparr>"] have l: "logged c' = logged c"
    by simp
  show ?case using r l Cons.IH[of c'] by (cases r) simp_all
qed

lemma logged_response_loop: "logged (snd (response_loop c)) = logged c"
proof -
  obtain r c' where e: "emission_loop (output_buffer c) c = (r, c')"
    by (cases "emission_loop (output_buffer c) c")
  with logged_emission_loop[of "output_buffer c" c] have "logged c' = logged c" by simp
  with e show ?thesis by (cases r) (simp_all add: response_loop_def)
qed

lemma logged_release: "logged (snd (release_response_loop c)) = logged c"
  by (simp add: release_response_loop_def logged_response_loop)

lemma logged_write_all: "logged (snd (write_all ms c)) = logged c"
proof (induction ms arbitrary: c)
  case Nil
  show ?case by simp
next
  case (Cons m ms)
  show ?case using Cons.IH[of "c\<lparr>write_buf := write_buf c @ [m]\<rparr>"]
    by (cases "write_error c") (simp_all add: write_buf_write_def)
qed

lemma logged_write_reply: "logged (snd (write_reply ms c)) = logged c"
proof -
  obtain r c' where w: "write_all ms c = (r, c')" by (cases "write_all ms c")
  with logged_write_all[of ms c] have "logged c' = logged c" by simp
  with w show ?thesis by (cases r) (simp_all add: write_reply_def write_buf_flush_def)
qed

lemma logged_upgrade_request: "logged (snd (upgrade_request g hs p c)) = logged c"
proof -
  have w: "logged c2 = logged c"
    if "write_reply ms (c\<lparr>c_handler := h, c_subprotocol := sp\<rparr>) = (r, c2)" for ms h sp r c2
    using that logged_write_reply[of ms "c\<lparr>c_handler := h, c_subprotocol := sp\<rparr>"] by simp
  show ?thesis
    by (auto simp add: upgrade_request_def Let_def split: option.splits sum.splits prod.splits
          dest: w)
qed

lemma logged_handshake: "logged (snd (read_http_upgrade_request g hs consumed c)) = logged c"
  by (cases consumed) (simp_all add: read_http_upgrade_request_def logged_upgrade_request)

lemma logged_invoke_handler: "logged (snd (invoke_handler c)) = logged c"
  by (simp add: invoke_handler_def split: sum.splits)

lemma logged_read_loop: "logged (snd (read_loop g hs consumed frames c)) = logged c"
proof -
  obtain r c1 where a: "read_http_upgrade_request g hs consumed c = (r, c1)"
    by (cases "read_http_upgrade_request g hs consumed c")
  with logged_handshake[of g hs consumed c] have l1: "logged c1 = logged c" by simp
  obtain rh c2 where b: "invoke_handler c1 = (rh, c2)" by (cases "invoke_handler c1")
  with logged_invoke_handler[of c1] l1 have l2: "logged c2 = logged c" by simp
  obtain rl c3 where d: "ingestion_loop frames c2 = (rl, c3)" by (cases "ingestion_loop frames c2")
  with logged_ingestion_loop[of frames c2] l2 have l3: "logged c3 = logged c" by simp
  show ?thesis using a b d l1 l3
    by (simp add: read_loop_def split: option.splits sum.splits)
qed

lemma logged_process_futures:
  "logged (snd (process_futures g hs consumed frames c)) = logged c"
proof -
  obtain r2 ca where a: "response_loop c = (r2, ca)" by (cases "response_loop c")
  with logged_response_loop[of c] have la: "logged ca = logged c" by simp
  obtain r1 c1 where b: "read_loop g hs consumed frames ca = (r1, c1)"
    by (cases "read_loop g hs consumed frames ca")
  with logged_read_loop[of g hs consumed frames ca] la have l1: "logged c1 = logged c" by simp
  obtain r3 c2 where r: "release_response_loop c1 = (r3, c2)"
    by (cases "release_response_loop c1")
  with logged_release[of c1] l1 have l2: "logged c2 = logged c" by simp
  show ?thesis using a b r l1 l2
    by (cases r2) (simp_all add: process_futures_def)
qed


subsection \<open>The read buffer stays closed\<close>




subsection \<open>The futures of \<^verbatim>\<open>read_loop\<close> and of \<^verbatim>\<open>process\<close>\<close>






lemma process_futures_read_loop:
  "fst (fst (process_futures g hs consumed frames c)) =
     fst (read_loop g hs consumed frames (snd (response_loop c)))"
proof -
  obtain r2 ca where a: "response_loop c = (r2, ca)" by (cases "response_loop c")
  obtain r1 c1 where b: "read_loop g hs consumed frames ca = (r1, c1)"
    by (cases "read_loop g hs consumed frames ca")
  obtain r3 c2 where r: "release_response_loop c1 = (r3, c2)"
    by (cases "release_response_loop c1")
  show ?thesis using a b r by (cases r2) (simp_all add: process_futures_def)
qed



lemma process_result:
  "fst (process g hs consumed frames c) =
     (if when_all_succeed (fst (fst (process_futures g hs consumed frames c)))
           (snd (fst (process_futures g hs consumed frames c))) = None
      then None else Some (Inr ()))"
proof -
  obtain r1 r2 c2 where a: "process_futures g hs consumed frames c = ((r1, r2), c2)"
    by (cases "process_futures g hs consumed frames c") auto
  show ?thesis
  proof (cases "when_all_succeed r1 r2")
    case None
    with a show ?thesis by (simp add: process_def)
  next
    case (Some r)
    with a show ?thesis by (cases r) (simp_all add: process_def)
  qed
qed

lemma process_logged:
  "logged (snd (process g hs consumed frames c)) =
     logged c @
     (case when_all_succeed (fst (fst (process_futures g hs consumed frames c)))
             (snd (fst (process_futures g hs consumed frames c))) of
        Some (Inl e) \<Rightarrow> [e] | _ \<Rightarrow> [])"
proof -
  obtain r1 r2 c2 where a: "process_futures g hs consumed frames c = ((r1, r2), c2)"
    by (cases "process_futures g hs consumed frames c") auto
  with logged_process_futures[of g hs consumed frames c] have l: "logged c2 = logged c" by simp
  show ?thesis
  proof (cases "when_all_succeed r1 r2")
    case None
    with a l show ?thesis by (simp add: process_def)
  next
    case (Some r)
    with a l show ?thesis by (cases r) (simp_all add: process_def)
  qed
qed






subsection \<open>A run with a failing handler\<close>

lemma failing_handler_handshake:
  "read_http_upgrade_request gnutls_library (one_handler (Inl (foreign_exception ''handler failed'')))
      (Inr rfc6455_request) (new_connection (Inr ()) None None) =
     (Some (Inr ()), (new_connection (Inr ()) None None)
        \<lparr>c_handler := Inl (foreign_exception ''handler failed''),
          write_buf := [bytes_of http_upgrade_reply_template,
                        bytes_of ''s3pPLMBiTxaQ9kYGzzhZRbK+xOo='', bytes_of (CRLF @ CRLF)]\<rparr>)"
  using handshake_reply[OF key_accept, of "Inl (foreign_exception ''handler failed'')"
      "new_connection (Inr ()) None None"]
  by (simp add: one_handler_def rfc6455_request_def new_connection_def)

lemma response_loop_new_connection:
  "response_loop (new_connection h0 werr ferr) = (None, new_connection h0 werr ferr)"
  by (simp add: response_loop_def new_connection_def)


lemma failing_handler_idle_read_loop:
  "read_loop gnutls_library (one_handler (Inl (foreign_exception ''handler failed'')))
      (Inr rfc6455_request) [] (new_connection (Inr ()) None None) =
     (None,
      (new_connection (Inr ()) None None)
        \<lparr>c_handler := Inl (foreign_exception ''handler failed''),
          write_buf := [bytes_of http_upgrade_reply_template,
                        bytes_of ''s3pPLMBiTxaQ9kYGzzhZRbK+xOo='', bytes_of (CRLF @ CRLF)],
          handler_calls := 1, read_buf_closed := True\<rparr>)"
  unfolding read_loop_def failing_handler_handshake
  by (simp add: invoke_handler_def new_connection_def when_all_succeed_def)

text \<open>
  While the peer of a failed handler sends nothing, the ingestion loop goes on waiting and
  \<^verbatim>\<open>process\<close> does not resolve; nothing is logged.
\<close>

lemma failing_handler_idle_peer:
  "fst (process gnutls_library (one_handler (Inl (foreign_exception ''handler failed'')))
      (Inr rfc6455_request) [] (new_connection (Inr ()) None None)) = None
   \<and> logged (snd (process gnutls_library
        (one_handler (Inl (foreign_exception ''handler failed'')))
        (Inr rfc6455_request) [] (new_connection (Inr ()) None None))) = []"
proof -
  have r1: "fst (fst (process_futures gnutls_library
      (one_handler (Inl (foreign_exception ''handler failed'')))
      (Inr rfc6455_request) [] (new_connection (Inr ()) None None))) = None"
    by (simp add: process_futures_read_loop response_loop_new_connection
          failing_handler_idle_read_loop)
  have lg: "logged (new_connection (Inr ()) None None) = []" by (simp add: new_connection_def)
  show ?thesis by (simp add: process_result process_logged r1 when_all_succeed_def lg)
qed



section \<open>Stopping twice\<close>

lemma abort_twice:
  "map (\<lambda>l. l\<lparr>ls_aborted := True\<rparr>) (map (\<lambda>l. l\<lparr>ls_aborted := True\<rparr>) ls) =
     map (\<lambda>l. l\<lparr>ls_aborted := True\<rparr>) ls"
  by (simp add: comp_def)

lemma stop_first:
  assumes "\<not> g_closed (s_task_gate s)"
  shows "stop s =
     (Inr (), s\<lparr>s_listeners := map (\<lambda>l. l\<lparr>ls_aborted := True\<rparr>) (s_listeners s),
               s_connections := [], s_task_gate := \<lparr>g_closed = True, g_count = 0\<rparr>\<rparr>)"
  using assms by (simp add: stop_def gate_close_def close_all_def Let_def)

lemma stop_closed:
  assumes "g_closed (s_task_gate s)" "s_connections s = []"
  shows "stop s = (Inr (), s\<lparr>s_listeners := map (\<lambda>l. l\<lparr>ls_aborted := True\<rparr>) (s_listeners s)\<rparr>)"
  using assms by (simp add: stop_def gate_close_def close_all_def Let_def)

text \<open>
  Claim C8.  On a server whose gate is open, \<^verbatim>\<open>stop\<close> succeeds, leaves the gate closed
  and the connection registry empty; a second \<^verbatim>\<open>stop\<close> then succeeds as well, closing the
  closed gate again is a no-op, no connection is closed (the count of \<^verbatim>\<open>close\<close> calls
  stays), and the server state is unchanged.
\<close>

theorem stop_is_idempotent:
  assumes "\<not> g_closed (s_task_gate s)"
  shows "fst (stop s) = Inr ()
       \<and> g_closed (s_task_gate (snd (stop s)))
       \<and> s_connections (snd (stop s)) = []
       \<and> stop (snd (stop s)) = (Inr (), snd (stop s))
       \<and> s_close_calls (snd (stop (snd (stop s)))) = s_close_calls (snd (stop s))
       \<and> gate_close (snd (stop s)) = (Inr (), snd (stop s))"
proof -
  let ?s1 = "s\<lparr>s_listeners := map (\<lambda>l. l\<lparr>ls_aborted := True\<rparr>) (s_listeners s),
               s_connections := [], s_task_gate := \<lparr>g_closed = True, g_count = 0\<rparr>\<rparr>"
  have 1: "stop s = (Inr (), ?s1)" by (rule stop_first[OF assms])
  have 2: "stop ?s1 = (Inr (), ?s1)"
    using stop_closed[of ?s1] by (simp add: abort_twice)
  have 3: "gate_close ?s1 = (Inr (), ?s1)" by (simp add: gate_close_def)
  show ?thesis unfolding 1 by (simp add: 2 3)
qed

text \<open>A server with one listener and one live connection, stopped twice.\<close>

theorem stop_is_idempotent_witness:
  "\<not> g_closed (s_task_gate
       \<lparr>s_listeners = [seastar_listen ''0.0.0.0:8123'' \<lparr>reuse_address = True\<rparr>],
        s_handlers = one_handler (Inr ()),
        s_connections = [new_connection (Inr ()) None None],
        s_task_gate = \<lparr>g_closed = False, g_count = 2\<rparr>, s_close_calls = 0\<rparr>)
   \<and> stop (snd (stop
       \<lparr>s_listeners = [seastar_listen ''0.0.0.0:8123'' \<lparr>reuse_address = True\<rparr>],
        s_handlers = one_handler (Inr ()),
        s_connections = [new_connection (Inr ()) None None],
        s_task_gate = \<lparr>g_closed = False, g_count = 2\<rparr>, s_close_calls = 0\<rparr>)) =
      (Inr (),
       \<lparr>s_listeners = [(seastar_listen ''0.0.0.0:8123'' \<lparr>reuse_address = True\<rparr>)\<lparr>ls_aborted := True\<rparr>],
        s_handlers = one_handler (Inr ()),
        s_connections = [],
        s_task_gate = \<lparr>g_closed = True, g_count = 0\<rparr>, s_close_calls = 0\<rparr>)"
proof -
  let ?s = "\<lparr>s_listeners = [seastar_listen ''0.0.0.0:8123'' \<lparr>reuse_address = True\<rparr>],
        s_handlers = one_handler (Inr ()),
        s_connections = [new_connection (Inr ()) None None],
        s_task_gate = \<lparr>g_closed = False, g_count = 2\<rparr>, s_close_calls = 0\<rparr>"
  have o: "\<not> g_closed (s_task_gate ?s)" by simp
  from stop_is_idempotent[OF o] have "stop (snd (stop ?s)) = (Inr (), snd (stop ?s))" by blast
  moreover have "snd (stop ?s) =
       \<lparr>s_listeners = [(seastar_listen ''0.0.0.0:8123'' \<lparr>reuse_address = True\<rparr>)\<lparr>ls_aborted := True\<rparr>],
        s_handlers = one_handler (Inr ()),
        s_connections = [],
        s_task_gate = \<lparr>g_closed = True, g_count = 0\<rparr>, s_close_calls = 0\<rparr>"
    by (simp add: stop_def gate_close_def close_all_def Let_def)
  ultimately show ?thesis using o by simp
qed

section \<open>The completion flag never returns to false\<close>

lemma c_done_write_buf_write: "c_done (snd (write_buf_write m c)) = c_done c"
  by (simp add: write_buf_write_def)

lemma c_done_write_buf_flush: "c_done (snd (write_buf_flush c)) = c_done c"
  by (simp add: write_buf_flush_def)

lemma c_done_send_data: "c_done (snd (send_data opcode buff c)) = c_done c"
  by (simp add: send_data_result)

lemma c_done_write_all: "c_done (snd (write_all ms c)) = c_done c"
proof (induction ms arbitrary: c)
  case Nil
  show ?case by simp
next
  case (Cons m ms)
  show ?case
  proof (cases "write_buf_write m c")
    case (Pair r c')
    with c_done_write_buf_write[of m c] have d: "c_done c' = c_done c" by simp
    show ?thesis
    proof (cases r)
      case (Inl e)
      with Pair d show ?thesis by simp
    next
      case (Inr u)
      with Pair d Cons.IH[of c'] show ?thesis by simp
    qed
  qed
qed

lemma c_done_write_reply: "c_done (snd (write_reply ms c)) = c_done c"
proof (cases "write_all ms c")
  case (Pair r c')
  with c_done_write_all[of ms c] have "c_done c' = c_done c" by simp
  with Pair show ?thesis
    by (cases r) (simp_all add: write_reply_def write_buf_flush_def)
qed

lemma c_done_upgrade_request:
  assumes "c_done c" shows "c_done (snd (upgrade_request g hs p c))"
proof -
  have w: "c_done c2"
    if "write_reply ms (c\<lparr>c_handler := h, c_subprotocol := sp\<rparr>) = (r, c2)" for ms h sp r c2
    using that assms c_done_write_reply[of ms "c\<lparr>c_handler := h, c_subprotocol := sp\<rparr>"]
    by simp
  show ?thesis
    using assms
    by (auto simp add: upgrade_request_def Let_def split: option.splits sum.splits prod.splits
          intro: w)
qed

lemma c_done_handshake:
  "c_done c \<Longrightarrow> c_done (snd (read_http_upgrade_request g hs consumed c))"
  by (cases consumed) (simp_all add: read_http_upgrade_request_def c_done_upgrade_request)

lemma c_done_read_one: "c_done c \<Longrightarrow> c_done (snd (read_one p c))"
  by (simp add: read_one_def opcode_switch_def push_eventually_def handle_ping_def
        handle_pong_def c_done_close)

lemma c_done_ingestion_loop: "c_done c \<Longrightarrow> c_done (snd (ingestion_loop ps c))"
  by (simp add: ingestion_loop_done)

lemma c_done_response_loop: "c_done c \<Longrightarrow> c_done (snd (response_loop c))"
  by (simp add: response_loop_def emission_loop_done)

lemma c_done_release: "c_done c \<Longrightarrow> c_done (snd (release_response_loop c))"
  by (simp add: release_response_loop_def c_done_response_loop)

lemma c_done_invoke_handler: "c_done (snd (invoke_handler c)) = c_done c"
  by (simp add: invoke_handler_def split: sum.splits)

lemma c_done_read_loop:
  assumes "c_done c" shows "c_done (snd (read_loop g hs consumed frames c))"
proof (cases "read_http_upgrade_request g hs consumed c")
  case (Pair r c1)
  with c_done_handshake[OF assms, of g hs consumed] have d1: "c_done c1" by simp
  show ?thesis
  proof (cases r)
    case None
    with Pair d1 show ?thesis by (simp add: read_loop_def)
  next
    case (Some f)
    show ?thesis
    proof (cases f)
      case (Inl e)
      with Pair Some d1 show ?thesis by (simp add: read_loop_def)
    next
      case (Inr u)
      obtain rh c2 where h: "invoke_handler c1 = (rh, c2)" by (cases "invoke_handler c1")
      with c_done_invoke_handler[of c1] d1 have d2: "c_done c2" by simp
      from ingestion_loop_done[OF d2, of frames]
      show ?thesis using Pair Some Inr h d2
        by (simp add: read_loop_def when_all_succeed_def split: sum.splits)
    qed
  qed
qed

lemma c_done_process_futures:
  assumes "c_done c" shows "c_done (snd (process_futures g hs consumed frames c))"
proof -
  obtain r2 ca where a: "response_loop c = (r2, ca)" by (cases "response_loop c")
  with c_done_response_loop[OF assms] have da: "c_done ca" by simp
  obtain r1 c1 where b: "read_loop g hs consumed frames ca = (r1, c1)"
    by (cases "read_loop g hs consumed frames ca")
  with c_done_read_loop[OF da, of g hs consumed frames] have d1: "c_done c1" by simp
  obtain r3 c2 where r: "release_response_loop c1 = (r3, c2)"
    by (cases "release_response_loop c1")
  with c_done_release[OF d1] have d2: "c_done c2" by simp
  show ?thesis using a b r d1 d2
    by (cases r2) (simp_all add: process_futures_def)
qed

lemma c_done_process:
  assumes "c_done c" shows "c_done (snd (process g hs consumed frames c))"
proof -
  obtain r1 r2 c2 where a: "process_futures g hs consumed frames c = ((r1, r2), c2)"
    by (cases "process_futures g hs consumed frames c") auto
  with c_done_process_futures[OF assms, of g hs consumed frames] have "c_done c2" by simp
  with a show ?thesis
    by (simp add: process_def split: option.splits sum.splits)
qed

lemma c_done_after: "c_done c \<Longrightarrow> c_done (after op c)"
  by (cases op)
     (simp_all add: c_done_handshake c_done_read_one c_done_ingestion_loop c_done_response_loop
        c_done_close c_done_send_data shutdown_input_def c_done_read_loop c_done_process)

lemma c_done_foldl: "c_done c \<Longrightarrow> c_done (foldl (\<lambda>c op. after op c) c ops)"
  by (induction ops arbitrary: c) (simp_all add: c_done_after)

text \<open>
  Claim C9.  The completion flag of a new connection is false, and every operation of a
  connection (handshake, \<^verbatim>\<open>read_one\<close>, ingestion loop, emission loop, \<^verbatim>\<open>close\<close>,
  \<^verbatim>\<open>send_data\<close>, \<^verbatim>\<open>shutdown_input\<close>, \<^verbatim>\<open>read_loop\<close>, \<^verbatim>\<open>process\<close>), and every sequence
  of them, leaves a flag that is true true.
\<close>

theorem completion_flag_monotone:
  "\<not> c_done (new_connection h0 werr ferr)
   \<and> (c_done c \<longrightarrow> c_done (after op c))
   \<and> (c_done c \<longrightarrow> c_done (foldl (\<lambda>c op. after op c) c ops))"
  using c_done_after[of c op] c_done_foldl[of c ops] by (simp add: new_connection_def)

text \<open>A connection closed without a CLOSE frame, then handed a TEXT frame.\<close>

theorem completion_flag_monotone_witness:
  "c_done (after (Close False) (new_connection (Inr ()) None None))
   \<and> c_done (after (Read_One \<lparr>is_valid = True, ws_eof = False, ws_opcode = TEXT, ws_result = [0x41]\<rparr>)
        (after (Close False) (new_connection (Inr ()) None None)))"
proof -
  let ?c = "after (Close False) (new_connection (Inr ()) None None)"
  have d: "c_done ?c" by (simp add: close_False)
  from completion_flag_monotone[of "Inr ()" None None ?c
      "Read_One \<lparr>is_valid = True, ws_eof = False, ws_opcode = TEXT, ws_result = [0x41]\<rparr>" "[]"] d
  have "c_done (after (Read_One \<lparr>is_valid = True, ws_eof = False, ws_opcode = TEXT, ws_result = [0x41]\<rparr>) ?c)"
    by blast
  with d show ?thesis by blast
qed

section \<open>Listening without options\<close>

text \<open>
  Claim C10.  \<^verbatim>\<open>listen(addr)\<close> is \<^verbatim>\<open>listen(addr, lo)\<close> for the default options with
  \<^verbatim>\<open>reuse_address\<close> set: the listener it adds is bound to \<open>addr\<close> with these options, after
  the listeners that were there, and its accept loop starts unless the gate is closed.
\<close>

theorem listen_without_options_reuses_address:
  "listen_addr lo0 addr s = listen addr (lo0\<lparr>reuse_address := True\<rparr>) s
   \<and> s_listeners (listen_addr lo0 addr s) \<noteq> []
   \<and> ls_addr (last (s_listeners (listen_addr lo0 addr s))) = addr
   \<and> reuse_address (ls_opts (last (s_listeners (listen_addr lo0 addr s))))
   \<and> ls_opts (last (s_listeners (listen_addr lo0 addr s))) = lo0\<lparr>reuse_address := True\<rparr>
   \<and> butlast (s_listeners (listen_addr lo0 addr s)) = s_listeners s
   \<and> ls_accepting (last (s_listeners (listen_addr lo0 addr s))) = (\<not> g_closed (s_task_gate s))"
  by (simp add: listen_addr_def listen_def accept_def seastar_listen_def Let_def)

end
